theory Spec2Isabelle
  imports Main
begin

section \<open>Text primitives\<close>

text \<open>
  Text is a \<open>string\<close>. The JavaScript string methods the two extraction scripts
  call are written out on it. Letters are the ASCII letters: \<open>toLowerCase\<close> and
  \<open>toUpperCase\<close> map \<open>A\<close>..\<open>Z\<close> and \<open>a\<close>..\<open>z\<close> onto each other and leave every other
  character alone, and white space is the ASCII white space that \<open>trim\<close> and
  \<open>parseInt\<close> strip (tab, line feed, vertical tab, form feed, carriage return,
  space).
\<close>

definition isWhiteSpace :: "char \<Rightarrow> bool" where
  "isWhiteSpace c = (of_char c \<in> {9, 10, 11, 12, 13, 32 :: nat})"

definition trim :: "string \<Rightarrow> string" where
  "trim s = rev (dropWhile isWhiteSpace (rev (dropWhile isWhiteSpace s)))"

definition lowerChar :: "char \<Rightarrow> char" where
  "lowerChar c =
     (let n = (of_char c :: nat) in if 65 \<le> n \<and> n \<le> 90 then char_of (n + 32) else c)"

definition upperChar :: "char \<Rightarrow> char" where
  "upperChar c =
     (let n = (of_char c :: nat) in if 97 \<le> n \<and> n \<le> 122 then char_of (n - 32) else c)"

definition toLowerCase :: "string \<Rightarrow> string" where
  "toLowerCase s = map lowerChar s"

text \<open>\<open>s.includes(p)\<close>: \<open>p\<close> occurs in \<open>s\<close> as a contiguous run.\<close>

fun includes_str :: "string \<Rightarrow> string \<Rightarrow> bool" where
  "includes_str [] p = (p = [])"
| "includes_str (c # cs) p = (take (length p) (c # cs) = p \<or> includes_str cs p)"

text \<open>
  \<open>parseInt(s)\<close> with no radix: leading white space is skipped, one sign is read,
  a \<open>0x\<close> or \<open>0X\<close> prefix selects radix 16, and the longest run of digits of the
  radix is the value. No digit at all is \<open>NaN\<close>, here \<open>None\<close>. The value is an
  \<open>int\<close>: the rounding of a JavaScript number beyond \<open>2^53\<close> is left out.
\<close>

definition digitValue :: "char \<Rightarrow> nat option" where
  "digitValue c =
     (let n = (of_char c :: nat) in
      if 48 \<le> n \<and> n \<le> 57 then Some (n - 48)
      else if 97 \<le> n \<and> n \<le> 102 then Some (n - 87)
      else if 65 \<le> n \<and> n \<le> 70 then Some (n - 55)
      else None)"

definition isDigitOf :: "nat \<Rightarrow> char \<Rightarrow> bool" where
  "isDigitOf R c = (case digitValue c of None \<Rightarrow> False | Some d \<Rightarrow> d < R)"

definition digitsValue :: "nat \<Rightarrow> string \<Rightarrow> int" where
  "digitsValue R Z = foldl (\<lambda>acc c. acc * int R + (case digitValue c of None \<Rightarrow> 0 | Some d \<Rightarrow> int d)) 0 Z"

definition parseInt :: "string \<Rightarrow> int option" where
  "parseInt inputString =
     (let S = dropWhile isWhiteSpace inputString;
          sign = (if S \<noteq> [] \<and> hd S = CHR ''-'' then - 1 else 1 :: int);
          S1 = (if S \<noteq> [] \<and> (hd S = CHR ''+'' \<or> hd S = CHR ''-'') then tl S else S);
          hex = (take 2 S1 = ''0x'' \<or> take 2 S1 = ''0X'');
          R = (if hex then 16 else 10 :: nat);
          S2 = (if hex then drop 2 S1 else S1);
          Z = takeWhile (isDigitOf R) S2
      in if Z = [] then None else Some (sign * digitsValue R Z))"

text \<open>\<open>parseInt(s) || 0\<close>: \<open>NaN\<close> and \<open>0\<close> are both falsy and both give \<open>0\<close>.\<close>

definition orZero :: "int option \<Rightarrow> int" where
  "orZero v = (case v of None \<Rightarrow> 0 | Some n \<Rightarrow> if n = 0 then 0 else n)"

section \<open>The document tree\<close>

text \<open>
  The parsed page is a tree of nodes. An element has its tag name (lower case, as
  the HTML parser leaves it), the tokens of its class attribute, its other
  attributes and its children in document order.
\<close>

datatype node =
    Text string
  | Comment string
  | Element (tagName: string) (classList: "string list")
      (attributes: "(string \<times> string) list") (childNodes: "node list")

text \<open>
  A script holds a node together with the chain of its ancestors, nearest first;
  the chain is what \<open>parentElement\<close> and the descendant combinator of a selector
  read. A clone is detached: its chain is empty.
\<close>

type_synonym handle = "node list \<times> node"

fun textContent :: "node \<Rightarrow> string" where
  "textContent (Text s) = s"
| "textContent (Comment s) = []"
| "textContent (Element t cs as ks) = concat (map textContent ks)"

fun descendants :: "node list \<Rightarrow> node \<Rightarrow> handle list" where
  "descendants anc (Element t cs as ks) =
     concat (map (\<lambda>k. (Element t cs as ks # anc, k) # descendants (Element t cs as ks # anc) k) ks)"
| "descendants anc (Text s) = []"
| "descendants anc (Comment s) = []"

definition parentElement :: "handle \<Rightarrow> handle option" where
  "parentElement h = (case fst h of [] \<Rightarrow> None | p # ps \<Rightarrow> Some (ps, p))"

definition cloneNode :: "handle \<Rightarrow> handle" where
  "cloneNode h = ([], snd h)"

definition getAttribute :: "handle \<Rightarrow> string \<Rightarrow> string option" where
  "getAttribute h name =
     (case snd h of Element t cs as ks \<Rightarrow> map_of as name | _ \<Rightarrow> None)"

subsection \<open>Selectors\<close>

text \<open>
  The selectors the scripts use: a class (\<open>.c\<close>), a tag, a descendant pair
  (\<open>a b\<close>) and a list (\<open>a, b\<close>).
\<close>

datatype simple = Cls string | Tag string

datatype selector = Simple simple | Descendant simple simple | AnyOf selector selector

fun matchesSimple :: "simple \<Rightarrow> node \<Rightarrow> bool" where
  "matchesSimple (Cls c) (Element t cs as ks) = (c \<in> set cs)"
| "matchesSimple (Tag g) (Element t cs as ks) = (t = g)"
| "matchesSimple s (Text x) = False"
| "matchesSimple s (Comment x) = False"

fun matches :: "selector \<Rightarrow> handle \<Rightarrow> bool" where
  "matches (Simple s) h = matchesSimple s (snd h)"
| "matches (Descendant a b) h = (matchesSimple b (snd h) \<and> list_ex (matchesSimple a) (fst h))"
| "matches (AnyOf p q) h = (matches p h \<or> matches q h)"

definition querySelectorAll :: "handle \<Rightarrow> selector \<Rightarrow> handle list" where
  "querySelectorAll h sel = filter (matches sel) (descendants (fst h) (snd h))"

definition querySelector :: "handle \<Rightarrow> selector \<Rightarrow> handle option" where
  "querySelector h sel =
     (case querySelectorAll h sel of [] \<Rightarrow> None | x # xs \<Rightarrow> Some x)"

text \<open>
  \<open>document.querySelectorAll\<close>: the document is given by its root element, which
  is itself among the nodes searched.
\<close>

definition documentQuerySelectorAll :: "node \<Rightarrow> selector \<Rightarrow> handle list" where
  "documentQuerySelectorAll root sel = filter (matches sel) (([], root) # descendants [] root)"

subsection \<open>Removing nodes from a clone\<close>

text \<open>
  \<open>clone.querySelector(sel)\<close> followed by \<open>remove()\<close> deletes the first match in
  document order; \<open>clone.querySelectorAll(sel)\<close> followed by \<open>remove()\<close> on every
  match deletes them all. Both are only used with class selectors, which look at
  the node alone.
\<close>

fun removeFirst :: "(node \<Rightarrow> bool) \<Rightarrow> node \<Rightarrow> node \<times> bool"
  and removeFirstOf :: "(node \<Rightarrow> bool) \<Rightarrow> node list \<Rightarrow> node list \<times> bool" where
  "removeFirst P (Element t cs as ks) =
     (case removeFirstOf P ks of (ks', b) \<Rightarrow> (Element t cs as ks', b))"
| "removeFirst P (Text s) = (Text s, False)"
| "removeFirst P (Comment s) = (Comment s, False)"
| "removeFirstOf P [] = ([], False)"
| "removeFirstOf P (k # ks) =
     (if P k then (ks, True)
      else (case removeFirst P k of
              (k', True) \<Rightarrow> (k' # ks, True)
            | (k', False) \<Rightarrow> (case removeFirstOf P ks of (ks', b) \<Rightarrow> (k # ks', b))))"

fun removeAll_nodes :: "(node \<Rightarrow> bool) \<Rightarrow> node \<Rightarrow> node" where
  "removeAll_nodes P (Element t cs as ks) =
     Element t cs as (map (removeAll_nodes P) (filter (\<lambda>k. \<not> P k) ks))"
| "removeAll_nodes P (Text s) = Text s"
| "removeAll_nodes P (Comment s) = Comment s"

section \<open>Reading the stat cards\<close>

record stats =
  total_n :: int
  correct_n :: int
  wrong_n :: int
  new_n :: int

definition stats_init :: stats where
  "stats_init = \<lparr>total_n = 0, correct_n = 0, wrong_n = 0, new_n = 0\<rparr>"

text \<open>The callback of \<open>statCards.forEach\<close>, one card at a time.\<close>

definition statCard :: "stats \<Rightarrow> handle \<Rightarrow> stats" where
  "statCard stats cardEl =
     (case querySelector cardEl (Simple (Cls ''stat-label'')) of
        None \<Rightarrow> stats
      | Some label \<Rightarrow>
          (case querySelector cardEl (Simple (Cls ''stat-value'')) of
             None \<Rightarrow> stats
           | Some val \<Rightarrow>
               (let labelText = toLowerCase (textContent (snd label));
                    numValue = orZero (parseInt (textContent (snd val)))
                in if includes_str labelText ''total'' then stats\<lparr>total_n := numValue\<rparr>
                   else if includes_str labelText ''correct'' then stats\<lparr>correct_n := numValue\<rparr>
                   else if includes_str labelText ''wrong'' then stats\<lparr>wrong_n := numValue\<rparr>
                   else if includes_str labelText ''new'' then stats\<lparr>new_n := numValue\<rparr>
                   else stats)))"

definition statCards_forEach :: "handle list \<Rightarrow> stats \<Rightarrow> stats" where
  "statCards_forEach statCards stats = foldl statCard stats statCards"

definition readStats :: "node \<Rightarrow> stats" where
  "readStats root =
     statCards_forEach (documentQuerySelectorAll root (Simple (Cls ''stat-card''))) stats_init"

section \<open>Question records\<close>

text \<open>
  A question object is the list of its properties in the order they were set, as
  \<open>JSON.stringify\<close> writes them. A property that was never set is not in the list.
\<close>

datatype jvalue = Str string | Arr "string list"

type_synonym questionObj = "(string \<times> jvalue) list"

fun setProp :: "questionObj \<Rightarrow> string \<Rightarrow> jvalue \<Rightarrow> questionObj" where
  "setProp [] k v = [(k, v)]"
| "setProp (p # ps) k v = (if fst p = k then (k, v) # ps else p # setProp ps k v)"

definition getProp :: "questionObj \<Rightarrow> string \<Rightarrow> jvalue option" where
  "getProp obj k = map_of obj k"

section \<open>What a question block yields\<close>

datatype exn = TypeError

text \<open>The question text: the clone of the container without its first source badge.\<close>

definition questionTextOf :: "handle \<Rightarrow> string" where
  "questionTextOf questionTextEl =
     (let questionTextClone = cloneNode questionTextEl
      in trim (textContent
           (fst (removeFirst (matchesSimple (Cls ''answer-source-badge'')) (snd questionTextClone)))))"

definition imgSrcOf :: "handle \<Rightarrow> string option" where
  "imgSrcOf questionTextEl =
     (case querySelector questionTextEl (Simple (Tag ''img'')) of
        None \<Rightarrow> None
      | Some imgEl \<Rightarrow> getAttribute imgEl ''src'')"

definition isBadge :: "node \<Rightarrow> bool" where
  "isBadge n = (matchesSimple (Cls ''correct-answer-badge'') n
                 \<or> matchesSimple (Cls ''wrong-answer-badge'') n)"

definition choiceTextOf :: "handle \<Rightarrow> string" where
  "choiceTextOf answerLabel =
     (let choiceTextNode = cloneNode answerLabel
      in trim (textContent (removeAll_nodes isBadge (snd choiceTextNode))))"

text \<open>
  \<open>answerLabels.forEach\<close>. A label with empty text is passed over. For the
  others the parent of the label is asked for a correct-answer badge;
  \<open>parentElement\<close> of a node without a parent is \<open>null\<close>, and the call on it
  throws. Variant B asks only when \<open>check\<close> holds (the question is neither new
  nor wrong); variant A has no such guard and is the loop with \<open>check = True\<close>.
\<close>

fun answerLabels_forEach ::
  "bool \<Rightarrow> handle list \<Rightarrow> string list \<times> string list \<Rightarrow> exn + (string list \<times> string list)" where
  "answerLabels_forEach check [] acc = Inr acc"
| "answerLabels_forEach check (answerLabel # rest) (choices, correctAnswers) =
     (let choiceText = choiceTextOf answerLabel
      in if choiceText \<noteq> [] then
           (if check then
              (case parentElement answerLabel of
                 None \<Rightarrow> Inl TypeError
               | Some parent \<Rightarrow>
                   (case querySelector parent (Simple (Cls ''correct-answer-badge'')) of
                      Some correctBadge \<Rightarrow>
                        answerLabels_forEach check rest
                          (choices @ [choiceText], correctAnswers @ [choiceText])
                    | None \<Rightarrow>
                        answerLabels_forEach check rest (choices @ [choiceText], correctAnswers)))
            else answerLabels_forEach check rest (choices @ [choiceText], correctAnswers))
         else answerLabels_forEach check rest (choices, correctAnswers))"

text \<open>The branch for matching questions, taken when there is no answer label.\<close>

definition matchingChoices :: "handle \<Rightarrow> string list" where
  "matchingChoices questionEl =
     (let matchingLabels = querySelectorAll questionEl (Descendant (Cls ''pull-left'') (Tag ''label''));
          selectOptions = querySelectorAll questionEl (Descendant (Tag ''select'') (Tag ''option''));
          choices1 =
            foldl (\<lambda>choices label.
                     let text = trim (textContent (snd label))
                     in if text \<noteq> [] then choices @ [text] else choices)
              [] matchingLabels
      in foldl (\<lambda>choices opt.
                  let text = trim (textContent (snd opt))
                  in if text \<noteq> [] \<and> text \<noteq> ''[ Choose ]'' \<and> text \<notin> set choices
                     then choices @ [text] else choices)
           choices1 selectOptions)"

text \<open>The variables one pass of the question callback fills before it builds a record.\<close>

record locals =
  questionText :: string
  imgSrc :: "string option"
  choices :: "string list"
  correctAnswers :: "string list"

record localsB = locals +
  isNewQuestion :: bool
  isWrongAnswer :: bool

subsection \<open>Variant A\<close>

definition gatherA :: "handle \<Rightarrow> exn + locals option" where
  "gatherA questionEl =
     (case querySelector questionEl (Simple (Cls ''question_text'')) of
        None \<Rightarrow> Inr None
      | Some questionTextEl \<Rightarrow>
          (let answerLabels = querySelectorAll questionEl (Simple (Cls ''answer_label''))
           in case answerLabels_forEach True answerLabels ([], []) of
                Inl e \<Rightarrow> Inl e
              | Inr (cs, ca) \<Rightarrow>
                  Inr (Some \<lparr>questionText = questionTextOf questionTextEl,
                             imgSrc = imgSrcOf questionTextEl,
                             choices = cs, correctAnswers = ca\<rparr>)))"

subsection \<open>Variant B\<close>

definition gatherB :: "handle \<Rightarrow> exn + localsB option" where
  "gatherB questionEl =
     (case querySelector questionEl (Simple (Cls ''question_text'')) of
        None \<Rightarrow> Inr None
      | Some questionTextEl \<Rightarrow>
          (let sourceBadge = querySelector questionTextEl (Simple (Cls ''answer-source-badge''));
               isNew = (case sourceBadge of None \<Rightarrow> False
                        | Some b \<Rightarrow> matchesSimple (Cls ''new-source'') (snd b));
               isWrong = (case sourceBadge of None \<Rightarrow> False
                          | Some b \<Rightarrow> includes_str (toLowerCase (textContent (snd b))) ''wrong'');
               answerLabels = querySelectorAll questionEl (Simple (Cls ''answer_label''))
           in case (if answerLabels \<noteq> []
                    then answerLabels_forEach (\<not> isNew \<and> \<not> isWrong) answerLabels ([], [])
                    else Inr (matchingChoices questionEl, [])) of
                Inl e \<Rightarrow> Inl e
              | Inr (cs, ca) \<Rightarrow>
                  Inr (Some \<lparr>questionText = questionTextOf questionTextEl,
                             imgSrc = imgSrcOf questionTextEl,
                             choices = cs, correctAnswers = ca,
                             isNewQuestion = isNew, isWrongAnswer = isWrong\<rparr>)))"

section \<open>Building and emitting the records\<close>

text \<open>
  The properties both scripts set first: \<open>question\<close>, \<open>img\<close> when the source
  attribute is a non-empty string, and \<open>choices\<close>.
\<close>

definition questionObj0 :: "'a locals_scheme \<Rightarrow> questionObj" where
  "questionObj0 x =
     (let obj = [(''question'', Str (questionText x))];
          obj1 = (case imgSrc x of
                    None \<Rightarrow> obj
                  | Some src \<Rightarrow> if src \<noteq> [] then setProp obj ''img'' (Str src) else obj)
      in setProp obj1 ''choices'' (Arr (choices x)))"

record stateA =
  extractedQuestions :: "questionObj list"

record stateB = stateA +
  questionsWithAnswer :: nat
  questionsWithoutAnswer :: nat

definition emitA :: "locals \<Rightarrow> stateA \<Rightarrow> stateA" where
  "emitA x st =
     (if correctAnswers x \<noteq> [] \<and> choices x \<noteq> [] then
        (let questionObj =
               (if length (correctAnswers x) > 1
                then setProp (questionObj0 x) ''answer'' (Arr (correctAnswers x))
                else setProp (questionObj0 x) ''answer'' (Str (hd (correctAnswers x))))
         in st\<lparr>extractedQuestions := extractedQuestions st @ [questionObj]\<rparr>)
      else st)"

definition emitB :: "localsB \<Rightarrow> stateB \<Rightarrow> stateB" where
  "emitB x st =
     (if choices x \<noteq> [] then
        (if isNewQuestion x \<or> isWrongAnswer x \<or> correctAnswers x = [] then
           st\<lparr>extractedQuestions :=
                 extractedQuestions st @ [setProp (questionObj0 x) ''answer'' (Str [])],
              questionsWithoutAnswer := questionsWithoutAnswer st + 1\<rparr>
         else if length (correctAnswers x) > 1 then
           st\<lparr>extractedQuestions :=
                 extractedQuestions st @ [setProp (questionObj0 x) ''answer'' (Arr (correctAnswers x))],
              questionsWithAnswer := questionsWithAnswer st + 1\<rparr>
         else
           st\<lparr>extractedQuestions :=
                 extractedQuestions st
                   @ [setProp (questionObj0 x) ''answer'' (Str (hd (correctAnswers x)))],
              questionsWithAnswer := questionsWithAnswer st + 1\<rparr>)
      else st)"

text \<open>
  \<open>questionElements.forEach\<close> with its \<open>try\<close>/\<open>catch\<close>. The part of the body
  that reads the document (\<open>gather\<close>) may throw or return early; it writes no
  variable of the script. The part that follows (\<open>emit\<close>) updates the script's
  variables and calls nothing that throws. The handler logs the error, so after
  an exception the variables are as they were before the question.
\<close>

fun questions_forEach ::
  "(handle \<Rightarrow> exn + 'x option) \<Rightarrow> ('x \<Rightarrow> 's \<Rightarrow> 's) \<Rightarrow> handle list \<Rightarrow> 's \<Rightarrow> 's" where
  "questions_forEach gather emit [] st = st"
| "questions_forEach gather emit (questionEl # rest) st =
     (case gather questionEl of
        Inl error \<Rightarrow> questions_forEach gather emit rest st
      | Inr None \<Rightarrow> questions_forEach gather emit rest st
      | Inr (Some x) \<Rightarrow> questions_forEach gather emit rest (emit x st))"

definition displayQuestions :: "node \<Rightarrow> handle list" where
  "displayQuestions root = documentQuerySelectorAll root (Simple (Cls ''display_question''))"

definition stateA_init :: stateA where
  "stateA_init = \<lparr>extractedQuestions = []\<rparr>"

definition stateB_init :: stateB where
  "stateB_init = \<lparr>extractedQuestions = [], questionsWithAnswer = 0, questionsWithoutAnswer = 0\<rparr>"

definition runA :: "node \<Rightarrow> stateA" where
  "runA root = questions_forEach gatherA emitA (displayQuestions root) stateA_init"

definition runB :: "node \<Rightarrow> stateB" where
  "runB root = questions_forEach gatherB emitB (displayQuestions root) stateB_init"

text \<open>What one question block alone adds to the output: no record or one.\<close>

definition emittedA :: "handle \<Rightarrow> questionObj list" where
  "emittedA questionEl = extractedQuestions (questions_forEach gatherA emitA [questionEl] stateA_init)"

definition emittedB :: "handle \<Rightarrow> questionObj list" where
  "emittedB questionEl = extractedQuestions (questions_forEach gatherB emitB [questionEl] stateB_init)"

subsection \<open>The printed summary\<close>

datatype reportLabel =
  HtmlTotal | HtmlCorrect | HtmlWrong | HtmlNew
  | QuestionsInJson | ExtractedTotal | WithAnswer | BlankAnswer

datatype reportLine = Count reportLabel int | Match bool

definition reportA :: "node \<Rightarrow> reportLine list" where
  "reportA root =
     (let stats = readStats root; st = runA root
      in [Count HtmlTotal (total_n stats),
          Count HtmlCorrect (correct_n stats),
          Count HtmlWrong (wrong_n stats),
          Count HtmlNew (new_n stats),
          Count QuestionsInJson (int (length (extractedQuestions st))),
          Match (int (length (extractedQuestions st)) = correct_n stats)])"

definition reportB :: "node \<Rightarrow> reportLine list" where
  "reportB root =
     (let stats = readStats root; st = runB root
      in [Count HtmlTotal (total_n stats),
          Count HtmlCorrect (correct_n stats),
          Count HtmlWrong (wrong_n stats),
          Count HtmlNew (new_n stats),
          Count ExtractedTotal (int (length (extractedQuestions st))),
          Count WithAnswer (int (questionsWithAnswer st)),
          Count BlankAnswer (int (questionsWithoutAnswer st)),
          Match (int (length (extractedQuestions st)) = total_n stats)])"

fun reportLabels :: "reportLine list \<Rightarrow> reportLabel list" where
  "reportLabels [] = []"
| "reportLabels (Count l v # ls) = l # reportLabels ls"
| "reportLabels (Match b # ls) = reportLabels ls"

section \<open>The course registry\<close>

text \<open>
  \<open>assets/courses.json\<close> holds an array of courses. A property that may be
  missing in the file (\<open>modules\<close>, a module's \<open>id\<close> and \<open>checkpoints\<close>) is an
  option. The file system is the set of paths that exist together with the
  registry file, \<open>None\<close> when there is none. The course folder is one path
  component, and the calls on the file system succeed.
\<close>

record courseModule =
  mod_id :: "int option"
  mod_name :: string
  checkpoints :: "string list option"

record course =
  course_id :: string
  course_name :: string
  modules :: "courseModule list option"

type_synonym path = "string list"

record fs =
  paths :: "path set"
  coursesFile :: "course list option"

definition existsSync :: "fs \<Rightarrow> path \<Rightarrow> bool" where
  "existsSync f p = (p \<in> paths f)"

text \<open>\<open>mkdirSync(p, {recursive: true})\<close> creates \<open>p\<close> and every missing parent.\<close>

definition mkdirSync :: "path \<Rightarrow> fs \<Rightarrow> fs" where
  "mkdirSync p f = f\<lparr>paths := paths f \<union> set (map (\<lambda>n. take n p) [1..<Suc (length p)])\<rparr>"

definition replaceChar :: "char \<Rightarrow> char \<Rightarrow> string \<Rightarrow> string" where
  "replaceChar a b s = map (\<lambda>c. if c = a then b else c) s"

definition isWordChar :: "char \<Rightarrow> bool" where
  "isWordChar c =
     (let n = (of_char c :: nat)
      in (48 \<le> n \<and> n \<le> 57) \<or> (65 \<le> n \<and> n \<le> 90) \<or> (97 \<le> n \<and> n \<le> 122) \<or> n = 95)"

text \<open>
  \<open>replace(/\b\w/g, c => c.toUpperCase())\<close>: a word character that does not
  follow a word character is put in upper case.
\<close>

fun capitalizeWords :: "bool \<Rightarrow> string \<Rightarrow> string" where
  "capitalizeWords afterWord [] = []"
| "capitalizeWords afterWord (c # cs) =
     (if isWordChar c \<and> \<not> afterWord then upperChar c else c) # capitalizeWords (isWordChar c) cs"

definition courseNameOf :: "string \<Rightarrow> string" where
  "courseNameOf courseFolder =
     capitalizeWords False (replaceChar CHR ''_'' CHR '' '' (replaceChar CHR ''-'' CHR '' '' courseFolder))"

definition moduleNameOf :: "string \<Rightarrow> string" where
  "moduleNameOf checkpointName =
     capitalizeWords False (replaceChar CHR ''-'' CHR '' '' (replaceChar CHR ''_'' CHR '' '' checkpointName))"

definition ensureCourseStructure :: "string \<Rightarrow> fs \<Rightarrow> (path \<times> path \<times> path) \<times> fs" where
  "ensureCourseStructure courseFolder f =
     (let assetsDir = [''assets''];
          courseDir = assetsDir @ [courseFolder];
          htmlDir = courseDir @ [''html''];
          jsonDir = courseDir @ [''json''];
          f1 = (if \<not> existsSync f htmlDir then mkdirSync htmlDir f else f);
          f2 = (if \<not> existsSync f1 jsonDir then mkdirSync jsonDir f1 else f1);
          courses = (case coursesFile f2 of None \<Rightarrow> [] | Some cs \<Rightarrow> cs);
          courseExists = list_ex (\<lambda>c. course_id c = courseFolder) courses;
          f3 = (if \<not> courseExists then
                  (let newCourse = \<lparr>course_id = courseFolder,
                                     course_name = courseNameOf courseFolder,
                                     modules = Some []\<rparr>
                   in f2\<lparr>coursesFile := Some (courses @ [newCourse])\<rparr>)
                else f2)
      in ((courseDir, htmlDir, jsonDir), f3))"

text \<open>
  The body of the loop over the courses for the course that matches: the new
  array to write, or \<open>None\<close> when the checkpoint is already there and nothing is
  written.
\<close>

definition addModule :: "string \<Rightarrow> course \<Rightarrow> course option" where
  "addModule checkpointName c =
     (let ms = (case modules c of None \<Rightarrow> [] | Some xs \<Rightarrow> xs);
          checkpointExists =
            list_ex (\<lambda>m. case checkpoints m of None \<Rightarrow> False
                          | Some cps \<Rightarrow> checkpointName \<in> set cps) ms
      in if \<not> checkpointExists then
           (let existingIds = map (\<lambda>m. case mod_id m of None \<Rightarrow> 0
                                        | Some i \<Rightarrow> if i = 0 then 0 else i) ms;
                nextId = foldl max 0 existingIds + 1;
                newModule = \<lparr>mod_id = Some nextId,
                              mod_name = moduleNameOf checkpointName,
                              checkpoints = Some [checkpointName]\<rparr>
            in Some (c\<lparr>modules := Some (ms @ [newModule])\<rparr>))
         else None)"

text \<open>
  \<open>for (const course of courses)\<close> with its \<open>break\<close> at the first course whose
  id matches.
\<close>

fun courses_loop :: "string \<Rightarrow> string \<Rightarrow> course list \<Rightarrow> course list option" where
  "courses_loop courseFolder checkpointName [] = None"
| "courses_loop courseFolder checkpointName (c # rest) =
     (if course_id c = courseFolder then
        (case addModule checkpointName c of
           None \<Rightarrow> None
         | Some c' \<Rightarrow> Some (c' # rest))
      else (case courses_loop courseFolder checkpointName rest of
              None \<Rightarrow> None
            | Some rest' \<Rightarrow> Some (c # rest')))"

definition updateCourseModule :: "string \<Rightarrow> string \<Rightarrow> fs \<Rightarrow> fs" where
  "updateCourseModule courseFolder checkpointName f =
     (case coursesFile f of
        None \<Rightarrow> f
      | Some courses \<Rightarrow>
          (case courses_loop courseFolder checkpointName courses of
             None \<Rightarrow> f
           | Some courses' \<Rightarrow> f\<lparr>coursesFile := Some courses'\<rparr>))"

section \<open>Notions the properties are stated with\<close>

subsection \<open>Stat cards\<close>

datatype category = Total | Correct | Wrong | New


fun stat :: "category \<Rightarrow> stats \<Rightarrow> int" where
  "stat Total s = total_n s"
| "stat Correct s = correct_n s"
| "stat Wrong s = wrong_n s"
| "stat New s = new_n s"




subsection \<open>Questions\<close>

definition labelsOf :: "handle \<Rightarrow> handle list" where
  "labelsOf questionEl = querySelectorAll questionEl (Simple (Cls ''answer_label''))"

text \<open>The container of an answer label carries a correct-answer badge.\<close>

definition carriesCorrectBadge :: "handle \<Rightarrow> bool" where
  "carriesCorrectBadge answerLabel =
     (case parentElement answerLabel of
        None \<Rightarrow> False
      | Some parent \<Rightarrow> querySelector parent (Simple (Cls ''correct-answer-badge'')) \<noteq> None)"

text \<open>The non-empty choice texts of a list of labels, and those marked correct.\<close>

definition choiceTexts :: "handle list \<Rightarrow> string list" where
  "choiceTexts ls = filter (\<lambda>t. t \<noteq> []) (map choiceTextOf ls)"

definition markedCorrect :: "handle list \<Rightarrow> string list" where
  "markedCorrect ls =
     map choiceTextOf (filter (\<lambda>l. choiceTextOf l \<noteq> [] \<and> carriesCorrectBadge l) ls)"


definition sourceBadgeOf :: "handle \<Rightarrow> handle option" where
  "sourceBadgeOf questionEl =
     (case querySelector questionEl (Simple (Cls ''question_text'')) of
        None \<Rightarrow> None
      | Some questionTextEl \<Rightarrow> querySelector questionTextEl (Simple (Cls ''answer-source-badge'')))"

text \<open>The source badge marks the question as new, or as wrong.\<close>

definition marksNew :: "handle \<Rightarrow> bool" where
  "marksNew questionEl =
     (case sourceBadgeOf questionEl of
        None \<Rightarrow> False
      | Some b \<Rightarrow> matchesSimple (Cls ''new-source'') (snd b))"

definition marksWrong :: "handle \<Rightarrow> bool" where
  "marksWrong questionEl =
     (case sourceBadgeOf questionEl of
        None \<Rightarrow> False
      | Some b \<Rightarrow> includes_str (toLowerCase (textContent (snd b))) ''wrong'')"




text \<open>A record's answer is blank: the empty string.\<close>

definition blankAnswer :: "questionObj \<Rightarrow> bool" where
  "blankAnswer r = (getProp r ''answer'' = Some (Str []))"

section \<open>Sample pages\<close>

text \<open>Question blocks and a page, on which the properties below are evaluated.\<close>

definition sampleWrong :: node where
  "sampleWrong =
     Element ''div'' [''display_question''] []
       [Element ''div'' [''question_text''] []
          [Text '' Capital of France? '',
           Element ''span'' [''answer-source-badge''] [] [Text ''Wrong answer'']],
        Element ''div'' [''answer''] []
          [Element ''label'' [''answer_label''] [] [Text ''Paris''],
           Element ''span'' [''correct-answer-badge''] [] [Text ''Correct'']],
        Element ''div'' [''answer''] []
          [Element ''label'' [''answer_label''] [] [Text '' London '']]]"

definition samplePlain :: node where
  "samplePlain =
     Element ''div'' [''display_question''] []
       [Element ''div'' [''question_text''] [] [Text ''Yes or no?''],
        Element ''div'' [''answer''] []
          [Element ''label'' [''answer_label''] [] [Text ''Yes'']],
        Element ''div'' [''answer''] []
          [Element ''label'' [''answer_label''] [] [Text ''No'']]]"

definition sampleTwo :: node where
  "sampleTwo =
     Element ''div'' [''display_question''] []
       [Element ''div'' [''question_text''] []
          [Text ''Pick two'', Element ''img'' [] [(''src'', ''a.png'')] []],
        Element ''div'' [''answer''] []
          [Element ''label'' [''answer_label''] [] [Text ''A''],
           Element ''span'' [''correct-answer-badge''] [] [Text ''Correct'']],
        Element ''div'' [''answer''] []
          [Element ''label'' [''answer_label''] [] [Text ''B'']],
        Element ''div'' [''answer''] []
          [Element ''label'' [''answer_label''] [] [Text ''C''],
           Element ''span'' [''correct-answer-badge''] [] [Text ''Correct'']]]"


definition sampleCards :: "node list" where
  "sampleCards =
     [Element ''div'' [''stat-card''] []
        [Element ''div'' [''stat-label''] [] [Text ''Total Questions''],
         Element ''div'' [''stat-value''] [] [Text ''10'']],
      Element ''div'' [''stat-card''] []
        [Element ''div'' [''stat-label''] [] [Text ''New''],
         Element ''div'' [''stat-value''] [] [Text ''n/a'']],
      Element ''div'' [''stat-card''] []
        [Element ''div'' [''stat-label''] [] [Text ''TOTAL''],
         Element ''div'' [''stat-value''] [] [Text '' 7 of 9'']]]"

definition samplePage :: node where
  "samplePage = Element ''body'' [] [] (sampleCards @ [sampleWrong, sampleTwo])"



definition sampleFs :: fs where
  "sampleFs = \<lparr>paths = {}, coursesFile = None\<rparr>"

section \<open>Auxiliary facts\<close>

subsection \<open>Text\<close>

lemma includes_str_iff: "includes_str s p \<longleftrightarrow> (\<exists>a b. s = a @ p @ b)"
proof (induction s)
  case Nil
  show ?case by auto
next
  case (Cons c cs)
  show ?case
  proof
    assume "includes_str (c # cs) p"
    then consider "take (length p) (c # cs) = p" | "includes_str cs p" by auto
    then show "\<exists>a b. c # cs = a @ p @ b"
    proof cases
      case 1
      then have "c # cs = [] @ p @ drop (length p) (c # cs)"
        by (metis append_Nil append_take_drop_id)
      then show ?thesis by blast
    next
      case 2
      then obtain a b where "cs = a @ p @ b" using Cons.IH by blast
      then have "c # cs = (c # a) @ p @ b" by simp
      then show ?thesis by blast
    qed
  next
    assume "\<exists>a b. c # cs = a @ p @ b"
    then obtain a b where ab: "c # cs = a @ p @ b" by blast
    show "includes_str (c # cs) p"
    proof (cases a)
      case Nil
      then have "take (length p) (c # cs) = p" using ab by simp
      then show ?thesis by simp
    next
      case (Cons a0 as)
      then have "cs = as @ p @ b" using ab by simp
      then have "includes_str cs p" using Cons.IH by blast
      then show ?thesis by simp
    qed
  qed
qed

subsection \<open>Stat cards\<close>





subsection \<open>Questions and their records\<close>

lemma descendants_chain_pair: "(a, b) \<in> set (descendants anc n) \<Longrightarrow> a \<noteq> []"
proof (induction anc n arbitrary: a b rule: descendants.induct)
  case (1 anc t cs as ks)
  then show ?case by auto
qed simp_all

lemma descendants_chain: "h \<in> set (descendants anc n) \<Longrightarrow> fst h \<noteq> []"
  using descendants_chain_pair [of "fst h" "snd h" anc n] by simp

lemma querySelectorAll_chain: "h \<in> set (querySelectorAll q sel) \<Longrightarrow> fst h \<noteq> []"
  by (auto simp: querySelectorAll_def dest: descendants_chain)

lemma answerLabels_forEach_closed:
  assumes "check \<Longrightarrow> \<forall>l \<in> set ls. fst l \<noteq> []"
  shows "answerLabels_forEach check ls (cs, ca) =
           Inr (cs @ choiceTexts ls, ca @ (if check then markedCorrect ls else []))"
  using assms
proof (induction ls arbitrary: cs ca)
  case Nil
  show ?case by (simp add: choiceTexts_def markedCorrect_def)
next
  case (Cons l ls)
  have IH: "\<And>cs ca. answerLabels_forEach check ls (cs, ca) =
           Inr (cs @ choiceTexts ls, ca @ (if check then markedCorrect ls else []))"
    using Cons by simp
  show ?case
  proof (cases "check")
    case False
    then show ?thesis using IH
      by (simp add: choiceTexts_def markedCorrect_def Let_def)
  next
    case True
    then have "fst l \<noteq> []" using Cons.prems by simp
    then obtain p ps where "fst l = p # ps" by (cases "fst l") auto
    then have pe: "parentElement l = Some (ps, p)" by (simp add: parentElement_def)
    show ?thesis using True IH pe
      by (simp add: choiceTexts_def markedCorrect_def carriesCorrectBadge_def Let_def
            split: option.splits)
  qed
qed

lemma markedCorrect_subset: "set (markedCorrect ls) \<subseteq> set (choiceTexts ls)"
  by (auto simp: markedCorrect_def choiceTexts_def)

lemma markedCorrect_nonempty: "[] \<notin> set (markedCorrect ls)"
  by (auto simp: markedCorrect_def)

lemma markedCorrect_Nil_iff:
  "markedCorrect ls = [] \<longleftrightarrow> \<not> (\<exists>l \<in> set ls. choiceTextOf l \<noteq> [] \<and> carriesCorrectBadge l)"
  by (auto simp: markedCorrect_def filter_empty_conv)

lemma gatherA_closed:
  "gatherA q =
     (case querySelector q (Simple (Cls ''question_text'')) of
        None \<Rightarrow> Inr None
      | Some t \<Rightarrow> Inr (Some \<lparr>questionText = questionTextOf t, imgSrc = imgSrcOf t,
                          choices = choiceTexts (labelsOf q),
                          correctAnswers = markedCorrect (labelsOf q)\<rparr>))"
proof -
  have "answerLabels_forEach True (labelsOf q) ([], []) =
          Inr (choiceTexts (labelsOf q), markedCorrect (labelsOf q))"
    using answerLabels_forEach_closed [of True "labelsOf q" "[]" "[]"]
    by (simp add: labelsOf_def querySelectorAll_chain)
  then show ?thesis
    by (simp add: gatherA_def labelsOf_def split: option.splits)
qed

lemma gatherB_closed:
  "gatherB q =
     (case querySelector q (Simple (Cls ''question_text'')) of
        None \<Rightarrow> Inr None
      | Some t \<Rightarrow>
          Inr (Some \<lparr>questionText = questionTextOf t, imgSrc = imgSrcOf t,
                     choices = (if labelsOf q \<noteq> [] then choiceTexts (labelsOf q)
                                else matchingChoices q),
                     correctAnswers = (if labelsOf q \<noteq> [] \<and> \<not> marksNew q \<and> \<not> marksWrong q
                                       then markedCorrect (labelsOf q) else []),
                     isNewQuestion = marksNew q, isWrongAnswer = marksWrong q\<rparr>))"
proof (cases "querySelector q (Simple (Cls ''question_text''))")
  case None
  then show ?thesis by (simp add: gatherB_def)
next
  case (Some t)
  have loop: "\<And>check. answerLabels_forEach check (labelsOf q) ([], []) =
          Inr (choiceTexts (labelsOf q), if check then markedCorrect (labelsOf q) else [])"
    using answerLabels_forEach_closed [of _ "labelsOf q" "[]" "[]"]
    by (simp add: labelsOf_def querySelectorAll_chain)
  show ?thesis using Some loop
    by (simp add: gatherB_def labelsOf_def [symmetric] marksNew_def marksWrong_def
          sourceBadgeOf_def Let_def)
qed

lemma getProp_setProp_same: "getProp (setProp obj k v) k = Some v"
  by (induction obj) (auto simp: getProp_def)

lemma getProp_setProp_other: "k' \<noteq> k \<Longrightarrow> getProp (setProp obj k v) k' = getProp obj k'"
  by (induction obj) (auto simp: getProp_def)

lemma questionObj0_choices: "getProp (questionObj0 x) ''choices'' = Some (Arr (choices x))"
  by (simp add: questionObj0_def Let_def getProp_setProp_same)

lemma answered_choices:
  "getProp (setProp (questionObj0 x) ''answer'' v) ''choices'' = Some (Arr (choices x))"
  by (simp add: getProp_setProp_other questionObj0_choices)

lemma emitA_records:
  "extractedQuestions (emitA x st) =
     extractedQuestions st @
       (if correctAnswers x \<noteq> [] \<and> choices x \<noteq> []
        then [setProp (questionObj0 x) ''answer''
                (if length (correctAnswers x) > 1 then Arr (correctAnswers x)
                 else Str (hd (correctAnswers x)))]
        else [])"
  by (simp add: emitA_def Let_def)

lemma emitB_records:
  "extractedQuestions (emitB x st) =
     extractedQuestions st @
       (if choices x \<noteq> []
        then [setProp (questionObj0 x) ''answer''
                (if isNewQuestion x \<or> isWrongAnswer x \<or> correctAnswers x = [] then Str []
                 else if length (correctAnswers x) > 1 then Arr (correctAnswers x)
                 else Str (hd (correctAnswers x)))]
        else [])"
  by (simp add: emitB_def Let_def)

lemma emittedA_eq:
  "emittedA q = (case gatherA q of Inr (Some x) \<Rightarrow> extractedQuestions (emitA x stateA_init) | _ \<Rightarrow> [])"
  by (simp add: emittedA_def stateA_init_def split: sum.splits option.splits)

lemma emittedB_eq:
  "emittedB q = (case gatherB q of Inr (Some x) \<Rightarrow> extractedQuestions (emitB x stateB_init) | _ \<Rightarrow> [])"
  by (simp add: emittedB_def stateB_init_def split: sum.splits option.splits)

lemma walkA_records:
  "extractedQuestions (questions_forEach gatherA emitA qs st) =
     extractedQuestions st @ concat (map emittedA qs)"
proof (induction qs arbitrary: st)
  case Nil
  show ?case by simp
next
  case (Cons q qs)
  show ?case
    by (simp add: Cons.IH emittedA_eq emitA_records stateA_init_def
          split: sum.splits option.splits)
qed

lemma walkB_records:
  "extractedQuestions (questions_forEach gatherB emitB qs st) =
     extractedQuestions st @ concat (map emittedB qs)"
proof (induction qs arbitrary: st)
  case Nil
  show ?case by simp
next
  case (Cons q qs)
  show ?case
    by (simp add: Cons.IH emittedB_eq emitB_records stateB_init_def
          split: sum.splits option.splits)
qed

lemma runA_records: "extractedQuestions (runA root) = concat (map emittedA (displayQuestions root))"
  by (simp add: runA_def walkA_records stateA_init_def)

lemma runB_records: "extractedQuestions (runB root) = concat (map emittedB (displayQuestions root))"
  by (simp add: runB_def walkB_records stateB_init_def)

lemma emittedA_closed:
  "emittedA q =
     (case querySelector q (Simple (Cls ''question_text'')) of
        None \<Rightarrow> []
      | Some t \<Rightarrow>
          (let x = \<lparr>questionText = questionTextOf t, imgSrc = imgSrcOf t,
                    choices = choiceTexts (labelsOf q),
                    correctAnswers = markedCorrect (labelsOf q)\<rparr>
           in if markedCorrect (labelsOf q) \<noteq> []
              then [setProp (questionObj0 x) ''answer''
                      (if length (markedCorrect (labelsOf q)) > 1
                       then Arr (markedCorrect (labelsOf q))
                       else Str (hd (markedCorrect (labelsOf q))))]
              else []))"
proof -
  have "markedCorrect (labelsOf q) \<noteq> [] \<Longrightarrow> choiceTexts (labelsOf q) \<noteq> []"
    using markedCorrect_subset [of "labelsOf q"] by (cases "markedCorrect (labelsOf q)") auto
  then show ?thesis
    by (auto simp add: emittedA_eq gatherA_closed emitA_records stateA_init_def Let_def
          split: option.splits)
qed

lemma emittedB_closed:
  "emittedB q =
     (case querySelector q (Simple (Cls ''question_text'')) of
        None \<Rightarrow> []
      | Some t \<Rightarrow>
          (let cs = (if labelsOf q \<noteq> [] then choiceTexts (labelsOf q) else matchingChoices q);
               ca = (if labelsOf q \<noteq> [] \<and> \<not> marksNew q \<and> \<not> marksWrong q
                     then markedCorrect (labelsOf q) else []);
               x = \<lparr>questionText = questionTextOf t, imgSrc = imgSrcOf t,
                    choices = cs, correctAnswers = ca,
                    isNewQuestion = marksNew q, isWrongAnswer = marksWrong q\<rparr>
           in if cs \<noteq> []
              then [setProp (questionObj0 x) ''answer''
                      (if ca = [] then Str []
                       else if length ca > 1 then Arr ca else Str (hd ca))]
              else []))"
  by (auto simp add: emittedB_eq gatherB_closed emitB_records stateB_init_def Let_def
        split: option.splits)

lemma emittedA_record:
  assumes "r \<in> set (emittedA q)"
  shows "getProp r ''choices'' = Some (Arr (choiceTexts (labelsOf q)))
         \<and> markedCorrect (labelsOf q) \<noteq> []
         \<and> getProp r ''answer'' =
             Some (if length (markedCorrect (labelsOf q)) > 1
                   then Arr (markedCorrect (labelsOf q))
                   else Str (hd (markedCorrect (labelsOf q))))"
  using assms
  by (auto simp add: emittedA_closed Let_def answered_choices getProp_setProp_same
        split: option.splits if_splits)

lemma emittedB_record:
  assumes "r \<in> set (emittedB q)"
  shows "getProp r ''choices'' =
           Some (Arr (if labelsOf q \<noteq> [] then choiceTexts (labelsOf q) else matchingChoices q))
         \<and> (if labelsOf q \<noteq> [] then choiceTexts (labelsOf q) else matchingChoices q) \<noteq> []
         \<and> getProp r ''answer'' =
             Some (if labelsOf q = [] \<or> marksNew q \<or> marksWrong q
                      \<or> markedCorrect (labelsOf q) = [] then Str []
                   else if length (markedCorrect (labelsOf q)) > 1
                   then Arr (markedCorrect (labelsOf q))
                   else Str (hd (markedCorrect (labelsOf q))))"
  using assms
  by (auto simp add: emittedB_closed Let_def answered_choices getProp_setProp_same
        split: option.splits if_splits)

lemma choiceTexts_nonempty: "[] \<notin> set (choiceTexts ls)"
  by (simp add: choiceTexts_def)

lemma hd_markedCorrect:
  "markedCorrect ls \<noteq> [] \<Longrightarrow> hd (markedCorrect ls) \<in> set (choiceTexts ls) \<and> hd (markedCorrect ls) \<noteq> []"
  using markedCorrect_subset [of ls] markedCorrect_nonempty [of ls]
  by (cases "markedCorrect ls") auto

lemma runA_member:
  "r \<in> set (extractedQuestions (runA root)) \<Longrightarrow> \<exists>q \<in> set (displayQuestions root). r \<in> set (emittedA q)"
  by (auto simp: runA_records)

lemma runB_member:
  "r \<in> set (extractedQuestions (runB root)) \<Longrightarrow> \<exists>q \<in> set (displayQuestions root). r \<in> set (emittedB q)"
  by (auto simp: runB_records)

subsection \<open>The matching branch and the walk\<close>







lemma gatherA_no_exception: "gatherA q \<noteq> Inl e"
  by (simp add: gatherA_closed split: option.splits)

lemma gatherB_no_exception: "gatherB q \<noteq> Inl e"
  by (simp add: gatherB_closed split: option.splits)

subsection \<open>The counters of variant B\<close>

lemma emitB_counters:
  assumes "gatherB q = Inr (Some x)"
  shows "questionsWithAnswer (emitB x st) =
           questionsWithAnswer st + length (filter (\<lambda>r. \<not> blankAnswer r) (emittedB q))
         \<and> questionsWithoutAnswer (emitB x st) =
           questionsWithoutAnswer st + length (filter blankAnswer (emittedB q))"
proof -
  have ne: "[] \<notin> set (correctAnswers x)"
    using assms markedCorrect_nonempty [of "labelsOf q"]
    by (auto simp add: gatherB_closed split: option.splits if_splits)
  have hd: "correctAnswers x \<noteq> [] \<Longrightarrow> hd (correctAnswers x) \<noteq> []"
    using ne by (cases "correctAnswers x") auto
  have em: "emittedB q = extractedQuestions (emitB x stateB_init)"
    using assms by (simp add: emittedB_eq)
  show ?thesis
    unfolding em using hd
    by (simp add: emitB_def stateB_init_def blankAnswer_def getProp_setProp_same)
qed

lemma walkB_counters:
  "questionsWithAnswer (questions_forEach gatherB emitB qs st) =
     questionsWithAnswer st + length (filter (\<lambda>r. \<not> blankAnswer r) (concat (map emittedB qs)))
   \<and> questionsWithoutAnswer (questions_forEach gatherB emitB qs st) =
     questionsWithoutAnswer st + length (filter blankAnswer (concat (map emittedB qs)))"
proof (induction qs arbitrary: st)
  case Nil
  show ?case by simp
next
  case (Cons q qs)
  show ?case
  proof (cases "gatherB q")
    case (Inl e)
    then show ?thesis using Cons.IH [of st] by (simp add: emittedB_eq)
  next
    case (Inr res)
    show ?thesis
    proof (cases res)
      case None
      then show ?thesis using Inr Cons.IH [of st] by (simp add: emittedB_eq)
    next
      case (Some x)
      then have g: "gatherB q = Inr (Some x)" using Inr by simp
      show ?thesis using g Cons.IH [of "emitB x st"] emitB_counters [OF g, of st]
        by simp
    qed
  qed
qed

lemma emittedA_not_blank: "r \<in> set (emittedA q) \<Longrightarrow> \<not> blankAnswer r"
  using emittedA_record [of r q] hd_markedCorrect [of "labelsOf q"]
  by (auto simp: blankAnswer_def split: if_splits)

subsection \<open>The registry\<close>

lemma mkdirSync_self: "p \<noteq> [] \<Longrightarrow> p \<in> paths (mkdirSync p f)"
proof -
  assume "p \<noteq> []"
  then have "length p \<in> set [1..<Suc (length p)]" by (cases p) auto
  then have "take (length p) p \<in> (\<lambda>n. take n p) ` set [1..<Suc (length p)]"
    by (rule imageI)
  then show ?thesis by (simp add: mkdirSync_def)
qed

lemma mkdirSync_mono: "p \<in> paths f \<Longrightarrow> p \<in> paths (mkdirSync p' f)"
  by (simp add: mkdirSync_def)

lemma mkdirSync_coursesFile: "coursesFile (mkdirSync p f) = coursesFile f"
  by (simp add: mkdirSync_def)

lemma ensureCourseStructure_post:
  assumes "snd (ensureCourseStructure cf f) = f'"
  shows "[''assets'', cf, ''html''] \<in> paths f'"
    and "[''assets'', cf, ''json''] \<in> paths f'"
    and "\<exists>cs. coursesFile f' = Some cs \<and> list_ex (\<lambda>c. course_id c = cf) cs"
proof -
  define f1 where "f1 = (if \<not> existsSync f [''assets'', cf, ''html'']
                          then mkdirSync [''assets'', cf, ''html''] f else f)"
  define f2 where "f2 = (if \<not> existsSync f1 [''assets'', cf, ''json'']
                          then mkdirSync [''assets'', cf, ''json''] f1 else f1)"
  define courses where "courses = (case coursesFile f2 of None \<Rightarrow> [] | Some cs \<Rightarrow> cs)"
  have h1: "[''assets'', cf, ''html''] \<in> paths f1"
    by (simp add: f1_def existsSync_def mkdirSync_self)
  have h2: "[''assets'', cf, ''html''] \<in> paths f2"
    using h1 by (simp add: f2_def mkdirSync_mono)
  have j2: "[''assets'', cf, ''json''] \<in> paths f2"
    by (simp add: f2_def existsSync_def mkdirSync_self)
  have f': "f' = (if \<not> list_ex (\<lambda>c. course_id c = cf) courses
                  then f2\<lparr>coursesFile :=
                           Some (courses @ [\<lparr>course_id = cf, course_name = courseNameOf cf,
                                             modules = Some []\<rparr>])\<rparr>
                  else f2)"
    using assms
    by (simp add: ensureCourseStructure_def Let_def f1_def f2_def courses_def
          cong del: if_weak_cong)
  show "[''assets'', cf, ''html''] \<in> paths f'" using h2 by (simp add: f')
  show "[''assets'', cf, ''json''] \<in> paths f'" using j2 by (simp add: f')
  show "\<exists>cs. coursesFile f' = Some cs \<and> list_ex (\<lambda>c. course_id c = cf) cs"
  proof (cases "list_ex (\<lambda>c. course_id c = cf) courses")
    case True
    then have "courses \<noteq> []" by auto
    then have "coursesFile f2 = Some courses"
      by (auto simp: courses_def split: option.splits)
    then show ?thesis using True by (simp add: f')
  next
    case False
    then show ?thesis by (simp add: f')
  qed
qed

lemma ensureCourseStructure_fixed:
  assumes "[''assets'', cf, ''html''] \<in> paths f"
    and "[''assets'', cf, ''json''] \<in> paths f"
    and "coursesFile f = Some cs" and "list_ex (\<lambda>c. course_id c = cf) cs"
  shows "snd (ensureCourseStructure cf f) = f"
  using assms by (simp add: ensureCourseStructure_def Let_def existsSync_def)

lemma addModule_again:
  assumes "addModule cp c = Some c'"
  shows "addModule cp c' = None \<and> course_id c' = course_id c"
  using assms
  by (auto simp add: addModule_def Let_def list_ex_iff split: if_splits)

lemma courses_loop_again:
  "courses_loop cf cp cs = Some cs' \<Longrightarrow> courses_loop cf cp cs' = None"
proof (induction cs arbitrary: cs')
  case Nil
  then show ?case by simp
next
  case (Cons c cs)
  show ?case
  proof (cases "course_id c = cf")
    case True
    then obtain c' where c': "addModule cp c = Some c'" "cs' = c' # cs"
      using Cons.prems by (auto split: option.splits)
    then show ?thesis using True addModule_again [OF c'(1)] by simp
  next
    case False
    then obtain rest' where r: "courses_loop cf cp cs = Some rest'" "cs' = c # rest'"
      using Cons.prems by (auto split: option.splits)
    then show ?thesis using False Cons.IH [OF r(1)] by simp
  qed
qed

section \<open>The sample pages, evaluated\<close>

lemma eval_emittedB_wrong:
  "emittedB ([], sampleWrong) =
     [[(''question'', Str ''Capital of France?''),
       (''choices'', Arr [''Paris'', ''London'']), (''answer'', Str [])]]"
  by code_simp

lemma eval_emittedB_plain:
  "emittedB ([], samplePlain) =
     [[(''question'', Str ''Yes or no?''), (''choices'', Arr [''Yes'', ''No'']),
       (''answer'', Str [])]]"
  by code_simp


lemma eval_runA_page:
  "extractedQuestions (runA samplePage) =
     [[(''question'', Str ''Capital of France?''),
       (''choices'', Arr [''Paris'', ''London'']), (''answer'', Str ''Paris'')],
      [(''question'', Str ''Pick two''), (''img'', Str ''a.png''),
       (''choices'', Arr [''A'', ''B'', ''C'']), (''answer'', Arr [''A'', ''C''])]]"
  by code_simp

lemma eval_runB_page:
  "runB samplePage =
     \<lparr>extractedQuestions =
        [[(''question'', Str ''Capital of France?''),
          (''choices'', Arr [''Paris'', ''London'']), (''answer'', Str [])],
         [(''question'', Str ''Pick two''), (''img'', Str ''a.png''),
          (''choices'', Arr [''A'', ''B'', ''C'']), (''answer'', Arr [''A'', ''C''])]],
      questionsWithAnswer = 1, questionsWithoutAnswer = 1\<rparr>"
  by code_simp

lemma eval_reportA_page:
  "reportA samplePage =
     [Count HtmlTotal 7, Count HtmlCorrect 0, Count HtmlWrong 0, Count HtmlNew 0,
      Count QuestionsInJson 2, Match False]"
  by code_simp



section \<open>The claims\<close>

text \<open>
  Claim C1. In variant B a record emitted for a question whose source badge marks
  it as new or as wrong has the empty string as its answer, whatever
  correct-answer badges its choices carry. The record of a question that is
  neither new nor wrong, and none of whose non-empty choices sits in a container
  with a correct-answer badge, has the empty string as its answer too.
\<close>

theorem variantB_blank_answer:
  assumes "r \<in> set (emittedB q)"
  shows "(marksNew q \<or> marksWrong q \<longrightarrow> getProp r ''answer'' = Some (Str []))
         \<and> (\<not> marksNew q \<and> \<not> marksWrong q
              \<and> \<not> (\<exists>l \<in> set (labelsOf q). choiceTextOf l \<noteq> [] \<and> carriesCorrectBadge l)
            \<longrightarrow> getProp r ''answer'' = Some (Str []))"
  using emittedB_record [OF assms] markedCorrect_Nil_iff [of "labelsOf q"]
  by auto

theorem variantB_blank_answer_witness:
  "marksWrong ([], sampleWrong)
   \<and> carriesCorrectBadge (hd (labelsOf ([], sampleWrong)))
   \<and> hd (emittedB ([], sampleWrong)) \<in> set (emittedB ([], sampleWrong))
   \<and> getProp (hd (emittedB ([], sampleWrong))) ''answer'' = Some (Str [])
   \<and> \<not> marksNew ([], samplePlain) \<and> \<not> marksWrong ([], samplePlain)
   \<and> hd (emittedB ([], samplePlain)) \<in> set (emittedB ([], samplePlain))
   \<and> getProp (hd (emittedB ([], samplePlain))) ''answer'' = Some (Str [])"
proof -
  have w: "marksWrong ([], sampleWrong)" by code_simp
  have b: "carriesCorrectBadge (hd (labelsOf ([], sampleWrong)))" by code_simp
  have m1: "hd (emittedB ([], sampleWrong)) \<in> set (emittedB ([], sampleWrong))"
    by (simp add: eval_emittedB_wrong)
  have p: "\<not> marksNew ([], samplePlain) \<and> \<not> marksWrong ([], samplePlain)" by code_simp
  have n: "\<not> (\<exists>l \<in> set (labelsOf ([], samplePlain)).
                 choiceTextOf l \<noteq> [] \<and> carriesCorrectBadge l)"
    by code_simp
  have m2: "hd (emittedB ([], samplePlain)) \<in> set (emittedB ([], samplePlain))"
    by (simp add: eval_emittedB_plain)
  show ?thesis
    using w b m1 p n m2 variantB_blank_answer [OF m1] variantB_blank_answer [OF m2]
    by blast
qed



text \<open>
  Claim C3. For every document, every record either variant emits has a
  \<open>choices\<close> property that is a non-empty list.
\<close>

theorem emitted_choices_nonempty:
  assumes "r \<in> set (extractedQuestions (runA root)) \<or> r \<in> set (extractedQuestions (runB root))"
  shows "\<exists>cs. getProp r ''choices'' = Some (Arr cs) \<and> cs \<noteq> []"
  using assms
proof
  assume "r \<in> set (extractedQuestions (runA root))"
  then obtain q where "r \<in> set (emittedA q)" using runA_member by blast
  then have "getProp r ''choices'' = Some (Arr (choiceTexts (labelsOf q)))"
    and "markedCorrect (labelsOf q) \<noteq> []"
    using emittedA_record by blast+
  moreover have "choiceTexts (labelsOf q) \<noteq> []"
    using hd_markedCorrect [OF \<open>markedCorrect (labelsOf q) \<noteq> []\<close>] by auto
  ultimately show ?thesis by blast
next
  assume "r \<in> set (extractedQuestions (runB root))"
  then obtain q where "r \<in> set (emittedB q)" using runB_member by blast
  from emittedB_record [OF this] show ?thesis by blast
qed

theorem emitted_choices_nonempty_witness:
  "hd (extractedQuestions (runA samplePage)) \<in> set (extractedQuestions (runA samplePage))
   \<and> (\<exists>cs. getProp (hd (extractedQuestions (runA samplePage))) ''choices'' = Some (Arr cs)
            \<and> cs \<noteq> [])
   \<and> last (extractedQuestions (runB samplePage)) \<in> set (extractedQuestions (runB samplePage))
   \<and> (\<exists>cs. getProp (last (extractedQuestions (runB samplePage))) ''choices'' = Some (Arr cs)
            \<and> cs \<noteq> [])"
proof -
  have a: "hd (extractedQuestions (runA samplePage)) \<in> set (extractedQuestions (runA samplePage))"
    by (simp add: eval_runA_page)
  have b: "last (extractedQuestions (runB samplePage)) \<in> set (extractedQuestions (runB samplePage))"
    by (simp add: eval_runB_page)
  show ?thesis
    using a b emitted_choices_nonempty [OF disjI1, OF a] emitted_choices_nonempty [OF disjI2, OF b]
    by blast
qed

text \<open>
  Claim C4. In every record either variant emits, an answer that is a non-empty
  string is one of the record's choices, and every element of an answer that is
  a list is one of the record's choices.
\<close>

theorem answer_among_choices:
  assumes "r \<in> set (extractedQuestions (runA root)) \<or> r \<in> set (extractedQuestions (runB root))"
  shows "\<exists>cs a. getProp r ''choices'' = Some (Arr cs) \<and> getProp r ''answer'' = Some a
           \<and> (case a of Str s \<Rightarrow> s \<noteq> [] \<longrightarrow> s \<in> set cs | Arr xs \<Rightarrow> set xs \<subseteq> set cs)"
  using assms
proof
  assume "r \<in> set (extractedQuestions (runA root))"
  then obtain q where "r \<in> set (emittedA q)" using runA_member by blast
  from emittedA_record [OF this] show ?thesis
    using hd_markedCorrect [of "labelsOf q"] markedCorrect_subset [of "labelsOf q"]
    by (auto split: if_splits)
next
  assume "r \<in> set (extractedQuestions (runB root))"
  then obtain q where "r \<in> set (emittedB q)" using runB_member by blast
  from emittedB_record [OF this] show ?thesis
    using hd_markedCorrect [of "labelsOf q"] markedCorrect_subset [of "labelsOf q"]
    by (auto split: if_splits)
qed

theorem answer_among_choices_witness:
  "last (extractedQuestions (runA samplePage)) \<in> set (extractedQuestions (runA samplePage))
   \<and> getProp (last (extractedQuestions (runA samplePage))) ''answer'' = Some (Arr [''A'', ''C''])
   \<and> (\<exists>cs. getProp (last (extractedQuestions (runA samplePage))) ''choices'' = Some (Arr cs)
            \<and> set [''A'', ''C''] \<subseteq> set cs)
   \<and> hd (extractedQuestions (runA samplePage)) \<in> set (extractedQuestions (runA samplePage))
   \<and> getProp (hd (extractedQuestions (runA samplePage))) ''answer'' = Some (Str ''Paris'')
   \<and> (\<exists>cs. getProp (hd (extractedQuestions (runA samplePage))) ''choices'' = Some (Arr cs)
            \<and> ''Paris'' \<in> set cs)"
proof -
  have a: "last (extractedQuestions (runA samplePage)) \<in> set (extractedQuestions (runA samplePage))"
    by (simp add: eval_runA_page)
  have b: "hd (extractedQuestions (runA samplePage)) \<in> set (extractedQuestions (runA samplePage))"
    by (simp add: eval_runA_page)
  have va: "getProp (last (extractedQuestions (runA samplePage))) ''answer'' = Some (Arr [''A'', ''C''])"
    by (simp add: eval_runA_page getProp_def)
  have vb: "getProp (hd (extractedQuestions (runA samplePage))) ''answer'' = Some (Str ''Paris'')"
    by (simp add: eval_runA_page getProp_def)
  have ca: "\<exists>cs. getProp (last (extractedQuestions (runA samplePage))) ''choices'' = Some (Arr cs)
            \<and> set [''A'', ''C''] \<subseteq> set cs"
    using answer_among_choices [OF disjI1, OF a] va by auto
  have cb: "\<exists>cs. getProp (hd (extractedQuestions (runA samplePage))) ''choices'' = Some (Arr cs)
            \<and> ''Paris'' \<in> set cs"
    using answer_among_choices [OF disjI1, OF b] vb by auto
  show ?thesis using a b va vb ca cb by blast
qed

text \<open>
  Claim C5, amended. Variant B keeps two counters: after the walk,
  \<open>questionsWithAnswer\<close> is the number of emitted records whose answer is not
  blank and \<open>questionsWithoutAnswer\<close> the number of those whose answer is blank,
  and its summary prints both. Variant A keeps no such counter: its summary has
  the four figures of the stat cards and the number of emitted records only, and
  none of its records has a blank answer.
\<close>

theorem variantB_counters:
  "questionsWithAnswer (runB root) =
      length (filter (\<lambda>r. \<not> blankAnswer r) (extractedQuestions (runB root)))
   \<and> questionsWithoutAnswer (runB root) =
      length (filter blankAnswer (extractedQuestions (runB root)))
   \<and> Count WithAnswer (int (questionsWithAnswer (runB root))) \<in> set (reportB root)
   \<and> Count BlankAnswer (int (questionsWithoutAnswer (runB root))) \<in> set (reportB root)
   \<and> reportLabels (reportA root) = [HtmlTotal, HtmlCorrect, HtmlWrong, HtmlNew, QuestionsInJson]
   \<and> filter blankAnswer (extractedQuestions (runA root)) = []"
proof -
  have c: "questionsWithAnswer (runB root) =
      length (filter (\<lambda>r. \<not> blankAnswer r) (extractedQuestions (runB root)))
   \<and> questionsWithoutAnswer (runB root) =
      length (filter blankAnswer (extractedQuestions (runB root)))"
    using walkB_counters [of "displayQuestions root" stateB_init]
    by (simp add: runB_records) (simp add: runB_def stateB_init_def)
  have r: "Count WithAnswer (int (questionsWithAnswer (runB root))) \<in> set (reportB root)
   \<and> Count BlankAnswer (int (questionsWithoutAnswer (runB root))) \<in> set (reportB root)"
    by (simp add: reportB_def Let_def)
  have a: "reportLabels (reportA root) = [HtmlTotal, HtmlCorrect, HtmlWrong, HtmlNew, QuestionsInJson]"
    by (simp add: reportA_def Let_def)
  have b: "filter blankAnswer (extractedQuestions (runA root)) = []"
    using runA_member emittedA_not_blank by (fastforce simp: filter_empty_conv)
  show ?thesis using c r a b by simp
qed

theorem variantB_counters_witness:
  "questionsWithAnswer (runB samplePage) = 1
   \<and> questionsWithoutAnswer (runB samplePage) = 1
   \<and> length (filter (\<lambda>r. \<not> blankAnswer r) (extractedQuestions (runB samplePage))) = 1
   \<and> length (filter blankAnswer (extractedQuestions (runB samplePage))) = 1
   \<and> Count WithAnswer 1 \<in> set (reportB samplePage)
   \<and> Count BlankAnswer 1 \<in> set (reportB samplePage)"
proof -
  have a: "questionsWithAnswer (runB samplePage) = 1"
    and b: "questionsWithoutAnswer (runB samplePage) = 1"
    by (simp_all add: eval_runB_page)
  show ?thesis using variantB_counters [of samplePage] unfolding a b by simp
qed

text \<open>
  The claim as it stands also gives variant A the two counters. On the sample
  page the summary of variant A has neither of them.
\<close>

theorem variantA_counters_counterexample:
  "\<not> (\<exists>n. Count WithAnswer n \<in> set (reportA samplePage))
   \<and> \<not> (\<exists>n. Count BlankAnswer n \<in> set (reportA samplePage))"
  by (simp add: eval_reportA_page)







text \<open>
  Claim C9. Running \<open>ensureCourseStructure\<close> a second time with the same course
  folder leaves the paths and the registry file as the first run left them and
  returns the same directories; running \<open>updateCourseModule\<close> a second time with
  the same course folder and checkpoint name leaves them as the first run left
  them. No course and no module is added by the second run.
\<close>

theorem registry_idempotent:
  "snd (ensureCourseStructure courseFolder (snd (ensureCourseStructure courseFolder f)))
     = snd (ensureCourseStructure courseFolder f)
   \<and> fst (ensureCourseStructure courseFolder (snd (ensureCourseStructure courseFolder f)))
     = fst (ensureCourseStructure courseFolder f)
   \<and> updateCourseModule courseFolder checkpointName
        (updateCourseModule courseFolder checkpointName f)
     = updateCourseModule courseFolder checkpointName f"
proof -
  define f' where "f' = snd (ensureCourseStructure courseFolder f)"
  obtain cs where cs: "coursesFile f' = Some cs" "list_ex (\<lambda>c. course_id c = courseFolder) cs"
    using ensureCourseStructure_post(3) [of courseFolder f f'] f'_def by blast
  have e: "snd (ensureCourseStructure courseFolder f') = f'"
    using ensureCourseStructure_fixed [OF _ _ cs]
      ensureCourseStructure_post(1,2) [of courseFolder f f'] f'_def by blast
  have d: "fst (ensureCourseStructure courseFolder f') = fst (ensureCourseStructure courseFolder f)"
    by (simp add: ensureCourseStructure_def Let_def)
  have u: "updateCourseModule courseFolder checkpointName
        (updateCourseModule courseFolder checkpointName f)
     = updateCourseModule courseFolder checkpointName f"
  proof (cases "coursesFile f")
    case None
    then show ?thesis by (simp add: updateCourseModule_def)
  next
    case (Some courses)
    show ?thesis
    proof (cases "courses_loop courseFolder checkpointName courses")
      case None
      then show ?thesis using Some by (simp add: updateCourseModule_def)
    next
      case (Some courses')
      then show ?thesis using \<open>coursesFile f = Some courses\<close> courses_loop_again [OF Some]
        by (simp add: updateCourseModule_def)
    qed
  qed
  show ?thesis using e d u by (simp add: f'_def)
qed

theorem registry_idempotent_witness:
  "coursesFile (updateCourseModule ''dev-net'' ''checkpoint_1''
       (snd (ensureCourseStructure ''dev-net'' sampleFs)))
     = Some [\<lparr>course_id = ''dev-net'', course_name = ''Dev Net'',
               modules = Some [\<lparr>mod_id = Some 1, mod_name = ''Checkpoint 1'',
                                 checkpoints = Some [''checkpoint_1'']\<rparr>]\<rparr>]
   \<and> snd (ensureCourseStructure ''dev-net'' (snd (ensureCourseStructure ''dev-net'' sampleFs)))
     = snd (ensureCourseStructure ''dev-net'' sampleFs)
   \<and> updateCourseModule ''dev-net'' ''checkpoint_1''
       (updateCourseModule ''dev-net'' ''checkpoint_1''
          (snd (ensureCourseStructure ''dev-net'' sampleFs)))
     = updateCourseModule ''dev-net'' ''checkpoint_1''
         (snd (ensureCourseStructure ''dev-net'' sampleFs))"
proof -
  have e: "coursesFile (updateCourseModule ''dev-net'' ''checkpoint_1''
       (snd (ensureCourseStructure ''dev-net'' sampleFs)))
     = Some [\<lparr>course_id = ''dev-net'', course_name = ''Dev Net'',
               modules = Some [\<lparr>mod_id = Some 1, mod_name = ''Checkpoint 1'',
                                 checkpoints = Some [''checkpoint_1'']\<rparr>]\<rparr>]"
    by code_simp
  show ?thesis
    using e registry_idempotent [of "''dev-net''" sampleFs "''checkpoint_1''"]
      registry_idempotent [of "''dev-net''" "snd (ensureCourseStructure ''dev-net'' sampleFs)"
        "''checkpoint_1''"]
    by simp
qed

text \<open>
  Claim C10. Every record either variant emits has an \<open>answer\<close> property. In
  variant A it is a non-empty string or a list of at least two strings. In
  variant B it is there too, and for a question that is new, wrong or without a
  choice marked correct it is the empty string, written rather than left out.
\<close>

theorem answer_field_present:
  "(\<forall>r \<in> set (extractedQuestions (runA root)).
      (\<exists>s. getProp r ''answer'' = Some (Str s) \<and> s \<noteq> [])
      \<or> (\<exists>xs. getProp r ''answer'' = Some (Arr xs) \<and> length xs > 1))
   \<and> (\<forall>r \<in> set (extractedQuestions (runB root)). \<exists>a. getProp r ''answer'' = Some a)
   \<and> (\<forall>q \<in> set (displayQuestions root). \<forall>r \<in> set (emittedB q).
         marksNew q \<or> marksWrong q \<or> markedCorrect (labelsOf q) = []
         \<longrightarrow> getProp r ''answer'' = Some (Str []))"
proof -
  have A: "\<forall>r \<in> set (extractedQuestions (runA root)).
      (\<exists>s. getProp r ''answer'' = Some (Str s) \<and> s \<noteq> [])
      \<or> (\<exists>xs. getProp r ''answer'' = Some (Arr xs) \<and> length xs > 1)"
  proof
    fix r assume "r \<in> set (extractedQuestions (runA root))"
    then obtain q where "r \<in> set (emittedA q)" using runA_member by blast
    from emittedA_record [OF this] hd_markedCorrect [of "labelsOf q"]
    show "(\<exists>s. getProp r ''answer'' = Some (Str s) \<and> s \<noteq> [])
      \<or> (\<exists>xs. getProp r ''answer'' = Some (Arr xs) \<and> length xs > 1)"
      by (cases "length (markedCorrect (labelsOf q)) > 1") auto
  qed
  have B: "\<forall>r \<in> set (extractedQuestions (runB root)). \<exists>a. getProp r ''answer'' = Some a"
  proof
    fix r assume "r \<in> set (extractedQuestions (runB root))"
    then obtain q where "r \<in> set (emittedB q)" using runB_member by blast
    from emittedB_record [OF this] show "\<exists>a. getProp r ''answer'' = Some a" by blast
  qed
  have C: "\<forall>q \<in> set (displayQuestions root). \<forall>r \<in> set (emittedB q).
         marksNew q \<or> marksWrong q \<or> markedCorrect (labelsOf q) = []
         \<longrightarrow> getProp r ''answer'' = Some (Str [])"
    using emittedB_record by auto
  show ?thesis using A B C by blast
qed

theorem answer_field_present_witness:
  "extractedQuestions (runA samplePage) \<noteq> []
   \<and> (\<exists>s. getProp (hd (extractedQuestions (runA samplePage))) ''answer'' = Some (Str s)
           \<and> s \<noteq> [])
   \<and> extractedQuestions (runB samplePage) \<noteq> []
   \<and> (\<exists>a. getProp (hd (extractedQuestions (runB samplePage))) ''answer'' = Some a)"
proof -
  have a: "hd (extractedQuestions (runA samplePage)) \<in> set (extractedQuestions (runA samplePage))"
    by (simp add: eval_runA_page)
  have b: "hd (extractedQuestions (runB samplePage)) \<in> set (extractedQuestions (runB samplePage))"
    by (simp add: eval_runB_page)
  have s: "getProp (hd (extractedQuestions (runA samplePage))) ''answer'' = Some (Str ''Paris'')"
    by (simp add: eval_runA_page getProp_def)
  have "\<exists>a. getProp (hd (extractedQuestions (runB samplePage))) ''answer'' = Some a"
    using answer_field_present [of samplePage] b by blast
  moreover have "\<exists>s. getProp (hd (extractedQuestions (runA samplePage))) ''answer'' = Some (Str s)
           \<and> s \<noteq> []"
    using answer_field_present [of samplePage] a s by auto
  ultimately show ?thesis using a b by auto
qed

end
